theory Spec2Isabelle
  imports Complex_Main
begin

section \<open>The ledger store\<close>

text \<open>
  The route handlers of \<^verbatim>\<open>src/backend/routes\<close> work on a relational store through the
  client of \<^verbatim>\<open>../config/supabase\<close>. The rows keep the columns the accounting code reads
  or writes; identifiers (UUIDs in the source) are natural numbers, money is an integer
  number of minor units, and the timestamps (\<^verbatim>\<open>updated_at\<close>, \<^verbatim>\<open>completed_at\<close>) and the
  free text of a notification are left out.
\<close>

type_synonym ident = nat

record user =
  balance :: int
  total_earnings :: int
  tasks_completed :: int
  referred_by :: "ident option"

record referral =
  rf_id :: ident
  rf_referrer_id :: ident
  rf_referred_id :: ident
  rf_bonus_earned :: int
  rf_tasks_completed :: int

record task =
  t_reward :: int
  t_status :: string

record user_task =
  ut_user_id :: ident
  ut_task_id :: ident
  ut_status :: string
  ut_reward_amount :: int

record txn =
  tx_user_id :: ident
  tx_amount :: int
  tx_type :: string
  tx_description :: string
  tx_status :: string

record withdrawal =
  w_user_id :: ident
  w_amount :: int
  w_method :: string
  w_account_info :: string
  w_fee :: int
  w_net_amount :: int
  w_status :: string

record notification =
  n_user_id :: ident
  n_amount :: int
  n_type :: string

text \<open>
  Modelled from the spec: the client module \<^verbatim>\<open>../config/supabase\<close> and the table
  declarations are not among the sources. Following section 6 of the specification, the
  store offers point lookup and update of a user account by identifier with atomic
  increment of its numeric columns (the \<^verbatim>\<open>supabase.sql\<close> fragments), inserts into the other
  tables, and a uniqueness constraint on (user, task) for completions. So \<open>users\<close> and
  \<open>tasks\<close> are maps from the primary key, \<open>user_tasks\<close> is a map from the (user, task)
  pair, and the remaining tables are lists of rows in insertion order. \<open>console\<close> collects
  the lines written with \<^verbatim>\<open>console.error\<close>.
\<close>

record db =
  users :: "ident \<rightharpoonup> user"
  tasks :: "ident \<rightharpoonup> task"
  user_tasks :: "(ident \<times> ident) \<rightharpoonup> user_task"
  referrals :: "referral list"
  transactions :: "txn list"
  withdrawals :: "withdrawal list"
  notifications :: "notification list"
  console :: "string list"

text \<open>
  \<^verbatim>\<open>.update(...).eq('id', k)\<close> on \<open>users\<close>: the row with that key is rewritten; when there
  is none, nothing changes and the call still resolves.
\<close>

definition users_update_eq_id :: "ident \<Rightarrow> (user \<Rightarrow> user) \<Rightarrow> db \<Rightarrow> db" where
  "users_update_eq_id k g s =
     (case users s k of
        None \<Rightarrow> s
      | Some u \<Rightarrow> s\<lparr>users := (users s)(k \<mapsto> g u)\<rparr>)"

text \<open>\<^verbatim>\<open>.update(...).eq('id', k)\<close> on \<open>referrals\<close>: every row carrying that id is rewritten.\<close>

definition referrals_update_eq_id :: "ident \<Rightarrow> (referral \<Rightarrow> referral) \<Rightarrow> db \<Rightarrow> db" where
  "referrals_update_eq_id k g s =
     s\<lparr>referrals := map (\<lambda>r. if rf_id r = k then g r else r) (referrals s)\<rparr>"

text \<open>\<^verbatim>\<open>.single()\<close>: the data is the row when exactly one row matches, and null otherwise.\<close>

fun single :: "'a list \<Rightarrow> 'a option" where
  "single [x] = Some x"
| "single _ = None"

definition referrals_select :: "ident \<Rightarrow> ident \<Rightarrow> db \<Rightarrow> referral option" where
  "referrals_select referrerId userId s =
     single (filter (\<lambda>r. rf_referrer_id r = referrerId \<and> rf_referred_id r = userId)
                    (referrals s))"

definition console_error :: "string \<Rightarrow> db \<Rightarrow> db" where
  "console_error line s = s\<lparr>console := console s @ [line]\<rparr>"

subsection \<open>Rejected store calls\<close>

text \<open>
  Every \<^verbatim>\<open>await supabase...\<close> may reject, which throws at that place. The calls of the
  handlers are named, and a fault plan says which of them throw; a call that throws has
  no effect on the store. \<open>no_faults\<close> is the store whose calls all resolve.
\<close>

datatype call =
    TasksSelect | UserTasksSelect | UserTasksInsert | UsersUpdateReward
  | RbUsersSelect | RbReferralsSelect | RbUsersUpdate | RbReferralsUpdate
  | RbNotificationsInsert | RbSnapshotUpdate
  | BuUsersUpdate | BuTransactionsInsert
  | WdUsersSelect | WdWithdrawalsInsert | WdUsersUpdate | WdNotificationsInsert

type_synonym faults = "call \<Rightarrow> bool"

definition no_faults :: faults where
  "no_faults = (\<lambda>c. False)"

datatype outcome = Returned | Thrown

section \<open>Referral bonus engine (src/backend/routes/referrals.js: checkReferralBonuses)\<close>

text \<open>
  The chain of milestone tests. The source also assigns \<^verbatim>\<open>bonusDescription\<close>, which is
  never read afterwards, so only the amount is kept.
\<close>

definition bonusAmount :: "int \<Rightarrow> int \<Rightarrow> int" where
  "bonusAmount tasksCompleted snapshot =
     (if tasksCompleted = 3 \<and> snapshot < 3 then 5000
      else if tasksCompleted = 7 \<and> snapshot < 7 then 4000
      else if tasksCompleted = 15 \<and> snapshot < 15 then 8000
      else 0)"

text \<open>The body of the \<^verbatim>\<open>try\<close> block: it returns, or throws at a rejected call.\<close>

definition referral_bonus_try :: "faults \<Rightarrow> ident \<Rightarrow> db \<Rightarrow> outcome \<times> db" where
  "referral_bonus_try f userId s =
     (if f RbUsersSelect then (Thrown, s)
      else case users s userId of
        None \<Rightarrow> (Returned, s)
      | Some usr \<Rightarrow>
         (case referred_by usr of
            None \<Rightarrow> (Returned, s)
          | Some referrerId \<Rightarrow>
             (let tasksCompleted = tasks_completed usr in
              if f RbReferralsSelect then (Thrown, s)
              else case referrals_select referrerId userId s of
                None \<Rightarrow> (Returned, s)
              | Some referral \<Rightarrow>
                 (let bonus = bonusAmount tasksCompleted (rf_tasks_completed referral) in
                  if bonus > 0 then
                    (if f RbUsersUpdate then (Thrown, s)
                     else
                      (let s1 = users_update_eq_id referrerId
                                  (\<lambda>u. u\<lparr>balance := balance u + bonus,
                                          total_earnings := total_earnings u + bonus\<rparr>) s in
                       if f RbReferralsUpdate then (Thrown, s1)
                       else
                        (let s2 = referrals_update_eq_id (rf_id referral)
                                    (\<lambda>r. r\<lparr>rf_bonus_earned := rf_bonus_earned r + bonus,
                                            rf_tasks_completed := tasksCompleted\<rparr>) s1 in
                         if f RbNotificationsInsert then (Thrown, s2)
                         else (Returned,
                               s2\<lparr>notifications := notifications s2 @
                                    [\<lparr>n_user_id = referrerId, n_amount = bonus,
                                      n_type = ''success''\<rparr>]\<rparr>))))
                  else
                    (if f RbSnapshotUpdate then (Thrown, s)
                     else (Returned,
                           referrals_update_eq_id (rf_id referral)
                             (\<lambda>r. r\<lparr>rf_tasks_completed := tasksCompleted\<rparr>) s))))))"

text \<open>The \<^verbatim>\<open>catch\<close> logs and falls through: the function returns in every case.\<close>

definition checkReferralBonuses :: "faults \<Rightarrow> ident \<Rightarrow> db \<Rightarrow> db" where
  "checkReferralBonuses f userId s =
     (case referral_bonus_try f userId s of
        (Returned, s') \<Rightarrow> s'
      | (Thrown, s') \<Rightarrow> console_error ''Referral bonus check error:'' s')"

section \<open>Responses\<close>

text \<open>
  What a handler sends back. The constructors carry the names of the specification's
  error taxonomy where the handler has the matching answer:
  \<^item> \<open>TaskNotFound\<close>: 404 \<^verbatim>\<open>Task not found or inactive\<close>;
  \<^item> \<open>AlreadyCompleted\<close>: 400 \<^verbatim>\<open>Task already completed\<close>;
  \<^item> \<open>MissingFields\<close>: 400 \<^verbatim>\<open>Missing required fields\<close>, \<^verbatim>\<open>Amount and type are required\<close>;
  \<^item> \<open>UnsupportedMethod\<close>: 400 \<^verbatim>\<open>Invalid withdrawal method\<close>;
  \<^item> \<open>BelowMinimum\<close>: 400 \<^verbatim>\<open>Minimum withdrawal amount is COP ...\<close>,
    \<^verbatim>\<open>Amount must be at least COP ...\<close>;
  \<^item> \<open>InsufficientFunds\<close>: 400 \<^verbatim>\<open>Insufficient balance\<close>;
  \<^item> \<open>ServerError\<close>: the 500 answer of a handler's \<^verbatim>\<open>catch\<close>;
  \<^item> \<open>TaskCompleted\<close>, \<open>BalanceUpdated\<close>, \<open>WithdrawalCreated\<close>, \<open>FeeCalculated\<close>: the
    success answers with their payload.
\<close>

datatype response =
    TaskNotFound
  | AlreadyCompleted
  | MissingFields
  | UnsupportedMethod
  | BelowMinimum
  | InsufficientFunds
  | ServerError
  | TaskCompleted int user_task
  | BalanceUpdated int int
  | WithdrawalCreated withdrawal
  | FeeCalculated int int int

section \<open>Task completion (src/backend/routes/referrals.js: POST /:taskId/complete)\<close>

text \<open>\<^verbatim>\<open>.eq('id', taskId).eq('status', 'active').single()\<close> on \<open>tasks\<close>.\<close>

definition active_task :: "db \<Rightarrow> ident \<Rightarrow> task option" where
  "active_task s taskId =
     (case tasks s taskId of
        None \<Rightarrow> None
      | Some t \<Rightarrow> if t_status t = ''active'' then Some t else None)"

text \<open>
  The handler, call by call. The pre-check has just found no row for the pair, so the
  insert never meets the uniqueness constraint and \<^verbatim>\<open>userTaskError\<close> stays null. The result
  of the update of \<open>users\<close> is not looked at. The handler's \<^verbatim>\<open>catch\<close> logs and answers 500.
\<close>

definition complete_task :: "faults \<Rightarrow> ident \<Rightarrow> ident \<Rightarrow> db \<Rightarrow> response \<times> db" where
  "complete_task f userId taskId s =
     (if f TasksSelect then (ServerError, console_error ''Complete task error:'' s)
      else case active_task s taskId of
        None \<Rightarrow> (TaskNotFound, s)
      | Some tsk \<Rightarrow>
         (if f UserTasksSelect then (ServerError, console_error ''Complete task error:'' s)
          else case user_tasks s (userId, taskId) of
            Some existingUserTask \<Rightarrow> (AlreadyCompleted, s)
          | None \<Rightarrow>
             (if f UserTasksInsert
              then (ServerError, console_error ''Complete task error:'' s)
              else
               (let userTask = \<lparr>ut_user_id = userId, ut_task_id = taskId,
                                ut_status = ''completed'', ut_reward_amount = t_reward tsk\<rparr>;
                    s1 = s\<lparr>user_tasks := (user_tasks s)((userId, taskId) \<mapsto> userTask)\<rparr>
                in
                if f UsersUpdateReward
                then (ServerError, console_error ''Complete task error:'' s1)
                else
                 (let s2 = users_update_eq_id userId
                             (\<lambda>u. u\<lparr>balance := balance u + t_reward tsk,
                                     total_earnings := total_earnings u + t_reward tsk,
                                     tasks_completed := tasks_completed u + 1\<rparr>) s1
                  in (TaskCompleted (t_reward tsk) userTask,
                      checkReferralBonuses f userId s2))))))"

section \<open>Balance update (src/backend/routes/users.js: POST /balance/update)\<close>

text \<open>
  \<^verbatim>\<open>!amount\<close> holds for 0 and for an absent field, \<^verbatim>\<open>!type\<close> for the empty string and for
  an absent field; an absent field is written as 0 or as the empty string. The update
  ends in \<^verbatim>\<open>.select(...).single()\<close>: without a row for the user it reports an error, which
  the handler throws.
\<close>

definition post_balance_update ::
  "faults \<Rightarrow> ident \<Rightarrow> int \<Rightarrow> string \<Rightarrow> string \<Rightarrow> db \<Rightarrow> response \<times> db" where
  "post_balance_update f userId amount type description s =
     (if amount = 0 \<or> type = [] then (MissingFields, s)
      else
       (let balanceChange = (if type = ''add'' then amount else - amount) in
        if f BuUsersUpdate then (ServerError, console_error ''Update balance error:'' s)
        else case users s userId of
          None \<Rightarrow> (ServerError, console_error ''Update balance error:'' s)
        | Some u \<Rightarrow>
           (let usr = u\<lparr>balance := balance u + balanceChange,
                        total_earnings := (if type = ''add'' then total_earnings u + amount
                                           else total_earnings u)\<rparr>;
                s1 = s\<lparr>users := (users s)(userId \<mapsto> usr)\<rparr>
            in
            if f BuTransactionsInsert
            then (ServerError, console_error ''Update balance error:'' s1)
            else (BalanceUpdated (balance usr) (total_earnings usr),
                  s1\<lparr>transactions := transactions s1 @
                       [\<lparr>tx_user_id = userId, tx_amount = balanceChange, tx_type = type,
                         tx_description = (if description = [] then ''Balance '' @ type
                                           else description),
                         tx_status = ''completed''\<rparr>]\<rparr>))))"

section \<open>Withdrawals (src/backend/routes/users.js: POST / and POST /calculate-fee)\<close>

definition MINIMUM_WITHDRAWAL :: int where
  "MINIMUM_WITHDRAWAL = 25000"

text \<open>
  The source's numbers are IEEE doubles. An amount is an integer that a double holds
  exactly (below \<open>2 ^ 53\<close> in size), and so are the sums and differences of amounts the
  handlers take. The one product, \<^verbatim>\<open>amount * WITHDRAWAL_FEE_PERCENTAGE\<close>, is not exact
  and is rounded as a double rounds it: to 53 significant bits, the nearest value, a tie
  going to the even one.
\<close>

text \<open>The number of significant bits of a natural number.\<close>

fun bit_length :: "nat \<Rightarrow> nat" where
  "bit_length n = (if n = 0 then 0 else Suc (bit_length (n div 2)))"

declare bit_length.simps [simp del]

text \<open>The multiple of \<open>d\<close> nearest to \<open>n\<close>; of two equally near, the even multiple.\<close>

definition round_half_even :: "int \<Rightarrow> int \<Rightarrow> int" where
  "round_half_even d n =
     (let q = n div d; r = n mod d in
      if d < 2 * r \<or> (2 * r = d \<and> odd q) then (q + 1) * d else q * d)"

text \<open>A natural number cut to 53 significant bits.\<close>

definition round_to_double :: "int \<Rightarrow> int" where
  "round_to_double n = round_half_even (2 ^ (bit_length (nat n) - 53)) n"

text \<open>
  The product of two doubles whose exact product is a multiple of \<open>2 ^ -55\<close>, as the
  product of an integer and the fee percentage is. Overflow and subnormal results are
  out of reach of such a product.
\<close>

definition double_mult :: "real \<Rightarrow> real \<Rightarrow> real" where
  "double_mult x y =
     (let p = x * y; n = \<lfloor>\<bar>p\<bar> * 2 ^ 55\<rfloor>
      in sgn p * real_of_int (round_to_double n) / 2 ^ 55)"

text \<open>The literal \<^verbatim>\<open>0.10\<close> denotes the double nearest to one tenth.\<close>

definition WITHDRAWAL_FEE_PERCENTAGE :: real where
  "WITHDRAWAL_FEE_PERCENTAGE = 3602879701896397 / 2 ^ 55"

text \<open>\<^verbatim>\<open>Math.round\<close> gives the integer nearest to a double, a tie going up.\<close>

definition Math_round :: "real \<Rightarrow> int" where
  "Math_round x = \<lfloor>x + 1 / 2\<rfloor>"

definition withdrawal_fee :: "int \<Rightarrow> int" where
  "withdrawal_fee amount =
     Math_round (double_mult (of_int amount) WITHDRAWAL_FEE_PERCENTAGE)"

text \<open>
  POST /: the request for a withdrawal. An absent \<^verbatim>\<open>amount\<close>, \<^verbatim>\<open>method\<close> or
  \<^verbatim>\<open>account_info\<close> is written as 0 or as the empty string, which the first test rejects
  like the absent field.
\<close>

definition request_withdrawal ::
  "faults \<Rightarrow> ident \<Rightarrow> int \<Rightarrow> string \<Rightarrow> string \<Rightarrow> db \<Rightarrow> response \<times> db" where
  "request_withdrawal f userId amount method account_info s =
     (if amount = 0 \<or> method = [] \<or> account_info = [] then (MissingFields, s)
      else if method \<notin> set [''paypal'', ''nequi''] then (UnsupportedMethod, s)
      else if amount < MINIMUM_WITHDRAWAL then (BelowMinimum, s)
      else if f WdUsersSelect
        then (ServerError, console_error ''Create withdrawal error:'' s)
      else case users s userId of
        None \<Rightarrow> (InsufficientFunds, s)
      | Some usr \<Rightarrow>
         (if balance usr < amount then (InsufficientFunds, s)
          else
           (let fee = withdrawal_fee amount;
                netAmount = amount - fee;
                wd = \<lparr>w_user_id = userId, w_amount = amount, w_method = method,
                      w_account_info = account_info, w_fee = fee,
                      w_net_amount = netAmount, w_status = ''pending''\<rparr>
            in
            if f WdWithdrawalsInsert
            then (ServerError, console_error ''Create withdrawal error:'' s)
            else
             (let s1 = s\<lparr>withdrawals := withdrawals s @ [wd]\<rparr> in
              if f WdUsersUpdate
              then (ServerError, console_error ''Create withdrawal error:'' s1)
              else
               (let s2 = users_update_eq_id userId (\<lambda>u. u\<lparr>balance := balance u - amount\<rparr>) s1 in
                if f WdNotificationsInsert
                then (ServerError, console_error ''Create withdrawal error:'' s2)
                else (WithdrawalCreated wd,
                      s2\<lparr>notifications := notifications s2 @
                           [\<lparr>n_user_id = userId, n_amount = amount,
                             n_type = ''info''\<rparr>]\<rparr>))))))"

text \<open>POST /calculate-fee: amount, fee and net amount, without touching the store.\<close>

definition calculate_fee :: "int \<Rightarrow> response" where
  "calculate_fee amount =
     (if amount = 0 \<or> amount < MINIMUM_WITHDRAWAL then BelowMinimum
      else (let fee = withdrawal_fee amount; netAmount = amount - fee
            in FeeCalculated amount fee netAmount))"

section \<open>What the specification says\<close>

text \<open>
  The milestone table in the specification's words: threshold of completed tasks and
  the bonus it pays.
\<close>

definition milestone_table :: "(int \<times> int) list" where
  "milestone_table = [(3, 5000), (7, 4000), (15, 8000)]"

text \<open>
  The ledger invariant in the specification's words: the balance of a user is the sum of
  the signed amounts of the transactions recorded for that user.
\<close>

definition ledger_sum :: "db \<Rightarrow> ident \<Rightarrow> int" where
  "ledger_sum s userId =
     sum_list (map tx_amount (filter (\<lambda>t. tx_user_id t = userId) (transactions s)))"

definition ledger_consistent :: "db \<Rightarrow> ident \<Rightarrow> bool" where
  "ledger_consistent s userId =
     (case users s userId of
        None \<Rightarrow> True
      | Some u \<Rightarrow> balance u = ledger_sum s userId)"

definition balance_of :: "db \<Rightarrow> ident \<Rightarrow> int option" where
  "balance_of s userId = map_option balance (users s userId)"

section \<open>A small store to run the handlers on\<close>

text \<open>
  User 1 was referred by user 2, has completed two tasks and holds 50000, all of it
  recorded as one transaction; task 10 is active and pays 700.
\<close>

definition example_db :: db where
  "example_db =
     \<lparr>users = [1 \<mapsto> \<lparr>balance = 50000, total_earnings = 50000, tasks_completed = 2,
                      referred_by = Some 2\<rparr>,
               2 \<mapsto> \<lparr>balance = 0, total_earnings = 0, tasks_completed = 0,
                      referred_by = None\<rparr>],
      tasks = [10 \<mapsto> \<lparr>t_reward = 700, t_status = ''active''\<rparr>],
      user_tasks = Map.empty,
      referrals = [\<lparr>rf_id = 1, rf_referrer_id = 2, rf_referred_id = 1,
                    rf_bonus_earned = 0, rf_tasks_completed = 2\<rparr>],
      transactions = [\<lparr>tx_user_id = 1, tx_amount = 50000, tx_type = ''add'',
                       tx_description = ''Balance add'', tx_status = ''completed''\<rparr>],
      withdrawals = [],
      notifications = [],
      console = []\<rparr>"

text \<open>The same store with another count of completed tasks for user 1.\<close>

definition example_with_count :: "int \<Rightarrow> db" where
  "example_with_count c =
     example_db\<lparr>users := (users example_db)
       (1 \<mapsto> \<lparr>balance = 50000, total_earnings = 50000, tasks_completed = c,
                referred_by = Some 2\<rparr>)\<rparr>"

text \<open>The same store with another balance for user 1.\<close>

definition example_with_balance :: "int \<Rightarrow> db" where
  "example_with_balance b =
     example_db\<lparr>users := (users example_db)
       (1 \<mapsto> \<lparr>balance = b, total_earnings = b, tasks_completed = 2,
                referred_by = Some 2\<rparr>)\<rparr>"

text \<open>
  The same store after user 1 has completed task 10, with the task in the given status.
\<close>

definition example_completed :: "string \<Rightarrow> db" where
  "example_completed status =
     example_db\<lparr>tasks := [10 \<mapsto> \<lparr>t_reward = 700, t_status = status\<rparr>],
                user_tasks := [(1, 10) \<mapsto>
                  \<lparr>ut_user_id = 1, ut_task_id = 10, ut_status = ''completed'',
                   ut_reward_amount = 700\<rparr>]\<rparr>"

text \<open>The fault plan in which the update of the referrer's account is rejected.\<close>

definition referrer_update_rejected :: faults where
  "referrer_update_rejected c = (c = RbUsersUpdate)"

section \<open>Withdrawal workflow: fee, minimum and funds check\<close>

subsection \<open>The fee as the doubles compute it\<close>

lemma bit_length_le: "n < 2 ^ k \<Longrightarrow> bit_length n \<le> k"
proof (induction k arbitrary: n)
  case 0
  then show ?case by (subst bit_length.simps) simp
next
  case (Suc k)
  show ?case
  proof (cases "n = 0")
    case True
    then show ?thesis by (subst bit_length.simps) simp
  next
    case False
    from Suc.prems have "n div 2 < 2 ^ k" by simp
    from Suc.IH [OF this] False show ?thesis by (subst bit_length.simps) simp
  qed
qed

lemma round_half_even_ge:
  assumes "0 < d" and "d dvd g" and "g \<le> n"
  shows "g \<le> round_half_even d n"
proof -
  from assms(2) obtain c where g: "g = d * c" by (auto simp: dvd_def)
  have "c \<le> n div d"
    using assms(1,3) g by (metis zdiv_mono1 nonzero_mult_div_cancel_left less_irrefl)
  then have "d * c \<le> d * (n div d)" using assms(1) by simp
  moreover have "d * (n div d) \<le> round_half_even d n"
    using assms(1) by (simp add: round_half_even_def Let_def algebra_simps)
  ultimately show ?thesis using g by simp
qed

lemma round_half_even_le:
  assumes "0 < d" and "d dvd g" and "n \<le> g"
  shows "round_half_even d n \<le> g"
proof -
  from assms(2) obtain c where g: "g = d * c" by (auto simp: dvd_def)
  have le: "n div d \<le> c"
    using assms(1,3) g by (metis zdiv_mono1 nonzero_mult_div_cancel_left less_irrefl)
  show ?thesis
  proof (cases "n div d = c")
    case True
    have "n = d * (n div d) + n mod d" by simp
    with True g assms(3) have "n mod d \<le> 0" by simp
    moreover have "0 \<le> n mod d" using assms(1) by simp
    ultimately have "n mod d = 0" by simp
    with True g assms(1) show ?thesis by (simp add: round_half_even_def Let_def)
  next
    case False
    with le have "n div d + 1 \<le> c" by simp
    then have "(n div d + 1) * d \<le> c * d" using assms(1) by (simp add: mult_right_mono)
    moreover have "round_half_even d n \<le> (n div d + 1) * d"
      using assms(1) by (simp add: round_half_even_def Let_def algebra_simps)
    ultimately show ?thesis using g by (simp add: mult.commute)
  qed
qed

lemma round_to_double_0: "round_to_double 0 = 0"
  by (simp add: round_to_double_def round_half_even_def)

lemma double_mult_amount:
  assumes "0 \<le> a"
  shows "double_mult (of_int a) WITHDRAWAL_FEE_PERCENTAGE
           = real_of_int (round_to_double (a * 3602879701896397)) / 2 ^ 55"
proof (cases "a = 0")
  case True
  then show ?thesis by (simp add: double_mult_def round_to_double_0)
next
  case False
  with assms have pos: "0 < a" by simp
  let ?p = "real_of_int a * WITHDRAWAL_FEE_PERCENTAGE"
  have p: "0 < ?p" using pos by (simp add: WITHDRAWAL_FEE_PERCENTAGE_def)
  have "\<bar>?p\<bar> * 2 ^ 55 = real_of_int (a * 3602879701896397)"
    using p by (simp add: WITHDRAWAL_FEE_PERCENTAGE_def)
  then have "\<lfloor>\<bar>?p\<bar> * 2 ^ 55\<rfloor> = a * 3602879701896397"
    by (simp only: floor_of_int)
  moreover have "sgn ?p = 1" using p by simp
  ultimately show ?thesis by (simp only: double_mult_def Let_def mult_1)
qed


text \<open>
  Below \<open>2 ^ 52\<close> the rounding of the product never reaches the next half, and the fee is
  one tenth of the amount rounded to the nearest integer, a tie going up.
\<close>

lemma withdrawal_fee_bounded:
  assumes "0 \<le> a" and "a < 2 ^ 52"
  shows "withdrawal_fee a = (a + 5) div 10"
proof -
  define n where "n = a * 3602879701896397"
  define sh where "sh = bit_length (nat n) - 53"
  define d :: int where "d = 2 ^ sh"
  define v where "v = round_to_double n"
  define k where "k = (a + 5) div 10"
  have n: "n = a * 3602879701896397" by (simp add: n_def)
  have k: "10 * k \<le> a + 5" "a + 5 < 10 * k + 10" unfolding k_def by presburger+
  have n0: "0 \<le> n" using assms(1) n by simp
  have "n < 2 ^ 104" using assms n by simp
  then have "nat n < 2 ^ 104" using n0 by (simp add: nat_less_iff)
  then have "bit_length (nat n) \<le> 104" by (rule bit_length_le)
  then have sh: "sh \<le> 51" by (simp add: sh_def)
  have "(2::int) ^ sh \<le> 2 ^ 51" using sh by (intro power_increasing) simp_all
  then have d51: "d \<le> 2251799813685248" by (simp add: d_def)
  have d0: "0 < d" by (simp add: d_def)
  have dvd54: "d dvd 2 ^ 54" unfolding d_def using sh by (intro le_imp_power_dvd) simp
  have v: "v = round_half_even d n" by (simp add: v_def round_to_double_def d_def sh_def)
  have lo: "(2 * k - 1) * 2 ^ 54 \<le> v"
    unfolding v
  proof (rule round_half_even_ge [OF d0])
    show "d dvd (2 * k - 1) * 2 ^ 54" using dvd54 by (rule dvd_mult)
    show "(2 * k - 1) * 2 ^ 54 \<le> n" using k assms n by simp
  qed
  have hi: "v \<le> (2 * k + 1) * 2 ^ 54 - d"
    unfolding v
  proof (rule round_half_even_le [OF d0])
    show "d dvd (2 * k + 1) * 2 ^ 54 - d" by (intro dvd_diff dvd_mult dvd54 dvd_refl)
    show "n \<le> (2 * k + 1) * 2 ^ 54 - d" using k assms n d51 by simp
  qed
  have dv: "(v + 2 ^ 54) div 2 ^ 55 = k"
  proof (rule int_div_pos_eq)
    show "v + 2 ^ 54 = 2 ^ 55 * k + (v + 2 ^ 54 - 2 ^ 55 * k)" by simp
    show "0 \<le> v + 2 ^ 54 - 2 ^ 55 * k" using lo by simp
    show "v + 2 ^ 54 - 2 ^ 55 * k < 2 ^ 55" using hi d0 by simp
  qed
  have "real_of_int v / 2 ^ 55 + 1 / 2 = real_of_int (v + 2 ^ 54) / real_of_int (2 ^ 55)"
    by simp
  then have "\<lfloor>real_of_int v / 2 ^ 55 + 1 / 2\<rfloor> = (v + 2 ^ 54) div 2 ^ 55"
    by (simp only: floor_divide_of_int_eq)
  with dv have fl: "\<lfloor>real_of_int v / 2 ^ 55 + 1 / 2\<rfloor> = k" by (simp only:)
  have dm: "double_mult (of_int a) WITHDRAWAL_FEE_PERCENTAGE = real_of_int v / 2 ^ 55"
    using double_mult_amount [OF assms(1)] by (simp only: v_def n_def)
  show ?thesis
    by (simp only: withdrawal_fee_def Math_round_def dm fl k_def)
qed

lemma round_tenth: "round (real_of_int a * 0.10) = (a + 5) div 10"
proof -
  have "real_of_int a * 0.10 + 1 / 2 = real_of_int (a + 5) / real_of_int 10"
    by simp
  then have "\<lfloor>real_of_int a * 0.10 + 1 / 2\<rfloor> = (a + 5) div 10"
    by (simp only: floor_divide_of_int_eq)
  then show ?thesis by (simp add: round_def)
qed

text \<open>Further up the two differ: at this amount the product rounds up to the half.\<close>

lemma withdrawal_fee_large: "withdrawal_fee 9000000000000004 = 900000000000001"
proof -
  have "double_mult 9000000000000004 WITHDRAWAL_FEE_PERCENTAGE = 1800000000000001 / 2"
    using double_mult_amount [of 9000000000000004]
    by (simp add: round_to_double_def round_half_even_def Let_def bit_length.simps)
  then have "withdrawal_fee 9000000000000004 = \<lfloor>(1800000000000001 / 2 + 1 / 2 :: real)\<rfloor>"
    by (simp only: withdrawal_fee_def Math_round_def of_int_numeral)
  then show ?thesis by simp
qed


subsection \<open>The request\<close>

lemmas wd_defs =
  request_withdrawal_def users_update_eq_id_def console_error_def balance_of_def

lemma withdrawal_created_record:
  assumes "request_withdrawal f userId amount method account_info s
             = (WithdrawalCreated wd, s')"
  shows "wd = \<lparr>w_user_id = userId, w_amount = amount, w_method = method,
               w_account_info = account_info, w_fee = withdrawal_fee amount,
               w_net_amount = amount - withdrawal_fee amount, w_status = ''pending''\<rparr> \<and>
         MINIMUM_WITHDRAWAL \<le> amount \<and>
         wd \<in> set (withdrawals s') \<and>
         (\<exists>b. balance_of s userId = Some b \<and> balance_of s' userId = Some (b - amount))"
  using assms
  by (auto simp: wd_defs Let_def split: if_splits option.splits)

text \<open>A request that passes every test is accepted when no store call is rejected.\<close>

lemma withdrawal_accepted:
  assumes "users s userId = Some usr"
    and "MINIMUM_WITHDRAWAL \<le> amount"
    and "method \<in> set [''paypal'', ''nequi'']"
    and "account_info \<noteq> []"
    and "amount \<le> balance usr"
  shows "request_withdrawal no_faults userId amount method account_info s
           = (WithdrawalCreated
               \<lparr>w_user_id = userId, w_amount = amount, w_method = method,
                w_account_info = account_info, w_fee = withdrawal_fee amount,
                w_net_amount = amount - withdrawal_fee amount, w_status = ''pending''\<rparr>,
              s\<lparr>withdrawals := withdrawals s @
                   [\<lparr>w_user_id = userId, w_amount = amount, w_method = method,
                     w_account_info = account_info, w_fee = withdrawal_fee amount,
                     w_net_amount = amount - withdrawal_fee amount,
                     w_status = ''pending''\<rparr>],
                users := (users s)(userId \<mapsto> usr\<lparr>balance := balance usr - amount\<rparr>),
                notifications := notifications s @
                   [\<lparr>n_user_id = userId, n_amount = amount, n_type = ''info''\<rparr>]\<rparr>)"
  using assms
  by (auto simp: wd_defs Let_def no_faults_def MINIMUM_WITHDRAWAL_def)

text \<open>
  C4, as stated, fails: the fee is the rounded double product, and for a large amount
  that is not one tenth of the amount rounded. A request for 9000000000000004 by a user
  who holds that much is accepted with fee 900000000000001, while one tenth of the
  amount, 900000000000000.4, rounds to 900000000000000.
\<close>

theorem large_amount_fee_is_off:
  "fst (request_withdrawal no_faults 1 9000000000000004 ''nequi'' ''3001234567''
          (example_with_balance 9000000000000004))
     = WithdrawalCreated
         \<lparr>w_user_id = 1, w_amount = 9000000000000004, w_method = ''nequi'',
          w_account_info = ''3001234567'', w_fee = 900000000000001,
          w_net_amount = 8100000000000003, w_status = ''pending''\<rparr> \<and>
   round (real_of_int 9000000000000004 * 0.10) = 900000000000000"
proof -
  have u: "users (example_with_balance 9000000000000004) 1
             = Some \<lparr>balance = 9000000000000004, total_earnings = 9000000000000004,
                      tasks_completed = 2, referred_by = Some 2\<rparr>"
    by (simp add: example_with_balance_def)
  have "fst (request_withdrawal no_faults 1 9000000000000004 ''nequi'' ''3001234567''
          (example_with_balance 9000000000000004))
     = WithdrawalCreated
         \<lparr>w_user_id = 1, w_amount = 9000000000000004, w_method = ''nequi'',
          w_account_info = ''3001234567'', w_fee = withdrawal_fee 9000000000000004,
          w_net_amount = 9000000000000004 - withdrawal_fee 9000000000000004,
          w_status = ''pending''\<rparr>"
    using withdrawal_accepted [OF u, of 9000000000000004 "''nequi''" "''3001234567''"]
    by (simp add: MINIMUM_WITHDRAWAL_def)
  then have fee: "fst (request_withdrawal no_faults 1 9000000000000004 ''nequi'' ''3001234567''
          (example_with_balance 9000000000000004))
     = WithdrawalCreated
         \<lparr>w_user_id = 1, w_amount = 9000000000000004, w_method = ''nequi'',
          w_account_info = ''3001234567'', w_fee = 900000000000001,
          w_net_amount = 8100000000000003, w_status = ''pending''\<rparr>"
    by (simp add: withdrawal_fee_large)
  have tenth: "round (real_of_int 9000000000000004 * 0.10) = 900000000000000"
    by (simp add: round_def)
  from fee tenth show ?thesis by (rule conjI)
qed

text \<open>
  C4, amended. Whenever a withdrawal request of an amount A below \<open>2 ^ 52\<close> is accepted,
  the record it creates has fee = round(A * 0.10) and net_amount = A - fee, and the
  balance of the user goes down by the whole amount A. The fee query answers with the
  same fee and net amount.
\<close>

theorem withdrawal_fee_net_debit:
  assumes "request_withdrawal f userId amount method account_info s
             = (WithdrawalCreated wd, s')"
    and "amount < 2 ^ 52"
  shows "w_amount wd = amount \<and>
         w_fee wd = round (real_of_int amount * 0.10) \<and>
         w_net_amount wd = amount - w_fee wd \<and>
         wd \<in> set (withdrawals s') \<and>
         (\<exists>b. balance_of s userId = Some b \<and> balance_of s' userId = Some (b - amount)) \<and>
         calculate_fee amount = FeeCalculated amount (w_fee wd) (w_net_amount wd)"
proof -
  note rec = withdrawal_created_record [OF assms(1)]
  from rec have min: "MINIMUM_WITHDRAWAL \<le> amount" by blast
  then have pos: "0 \<le> amount" by (simp add: MINIMUM_WITHDRAWAL_def)
  have fee: "withdrawal_fee amount = round (real_of_int amount * 0.10)"
    using withdrawal_fee_bounded [OF pos assms(2)] by (simp only: round_tenth)
  have q: "calculate_fee amount
             = FeeCalculated amount (withdrawal_fee amount) (amount - withdrawal_fee amount)"
    using min by (simp add: calculate_fee_def Let_def MINIMUM_WITHDRAWAL_def)
  from rec fee q show ?thesis by auto
qed

theorem withdrawal_fee_net_debit_witness:
  "request_withdrawal no_faults 1 30000 ''nequi'' ''3001234567'' example_db =
     (WithdrawalCreated
        \<lparr>w_user_id = 1, w_amount = 30000, w_method = ''nequi'',
         w_account_info = ''3001234567'', w_fee = 3000, w_net_amount = 27000,
         w_status = ''pending''\<rparr>,
      snd (request_withdrawal no_faults 1 30000 ''nequi'' ''3001234567'' example_db)) \<and>
   (30000::int) < 2 ^ 52 \<and>
   balance_of example_db 1 = Some 50000 \<and>
   balance_of (snd (request_withdrawal no_faults 1 30000 ''nequi'' ''3001234567'' example_db)) 1
     = Some 20000"
proof -
  have u: "users example_db 1 = Some \<lparr>balance = 50000, total_earnings = 50000,
             tasks_completed = 2, referred_by = Some 2\<rparr>"
    by (simp add: example_db_def)
  have fee: "withdrawal_fee 30000 = 3000"
    using withdrawal_fee_bounded [of 30000] by simp
  have "fst (request_withdrawal no_faults 1 30000 ''nequi'' ''3001234567'' example_db)
          = WithdrawalCreated
              \<lparr>w_user_id = 1, w_amount = 30000, w_method = ''nequi'',
               w_account_info = ''3001234567'', w_fee = 3000, w_net_amount = 27000,
               w_status = ''pending''\<rparr>"
    using withdrawal_accepted [OF u, of 30000 "''nequi''" "''3001234567''"] fee
    by (simp add: MINIMUM_WITHDRAWAL_def)
  then have r: "request_withdrawal no_faults 1 30000 ''nequi'' ''3001234567'' example_db =
     (WithdrawalCreated
        \<lparr>w_user_id = 1, w_amount = 30000, w_method = ''nequi'',
         w_account_info = ''3001234567'', w_fee = 3000, w_net_amount = 27000,
         w_status = ''pending''\<rparr>,
      snd (request_withdrawal no_faults 1 30000 ''nequi'' ''3001234567'' example_db))"
    by (simp add: prod_eq_iff)
  have small: "(30000::int) < 2 ^ 52" by simp
  have b: "balance_of example_db 1 = Some 50000"
    by (simp add: balance_of_def example_db_def)
  from withdrawal_fee_net_debit [OF r small] b show ?thesis using r by auto
qed

text \<open>
  C8, as stated, fails: a request whose amount is 0 is below the minimum, and the handler
  answers that required fields are missing, since its first test takes 0 for an absent
  amount.
\<close>

theorem zero_amount_is_missing_field:
  "(0::int) < MINIMUM_WITHDRAWAL \<and>
   fst (request_withdrawal no_faults 1 0 ''nequi'' ''3001234567'' example_db) = MissingFields \<and>
   fst (request_withdrawal no_faults 1 0 ''nequi'' ''3001234567'' example_db) \<noteq> BelowMinimum"
  by (simp add: request_withdrawal_def MINIMUM_WITHDRAWAL_def)

text \<open>
  C8, amended. A withdrawal request with an amount below 25000 is always rejected with a
  validation answer and leaves the whole store as it was (no balance change, no
  withdrawal record). The answer is BelowMinimum exactly when the amount is not 0, the
  account info is present and the method is supported: the tests for missing fields and
  for the method come first.
\<close>

theorem below_minimum_rejected:
  assumes "amount < MINIMUM_WITHDRAWAL"
  shows "snd (request_withdrawal f userId amount method account_info s) = s \<and>
         fst (request_withdrawal f userId amount method account_info s)
           \<in> {MissingFields, UnsupportedMethod, BelowMinimum} \<and>
         (fst (request_withdrawal f userId amount method account_info s) = BelowMinimum) =
           (amount \<noteq> 0 \<and> account_info \<noteq> [] \<and> method \<in> set [''paypal'', ''nequi''])"
  using assms by (auto simp: request_withdrawal_def)

theorem below_minimum_rejected_witness:
  "(24999::int) < MINIMUM_WITHDRAWAL \<and>
   request_withdrawal no_faults 1 24999 ''paypal'' ''a@b.co'' example_db
     = (BelowMinimum, example_db)"
proof -
  have h: "(24999::int) < MINIMUM_WITHDRAWAL" by (simp add: MINIMUM_WITHDRAWAL_def)
  from below_minimum_rejected [OF h, of no_faults 1 "''paypal''" "''a@b.co''" example_db]
  have "snd (request_withdrawal no_faults 1 24999 ''paypal'' ''a@b.co'' example_db) = example_db"
    and "fst (request_withdrawal no_faults 1 24999 ''paypal'' ''a@b.co'' example_db) = BelowMinimum"
    by simp_all
  then show ?thesis using h by (simp add: prod_eq_iff)
qed

text \<open>
  C10. For a request that passes the earlier tests (amount at least 25000, supported
  method, account info present) of a user with an account, the answer is
  InsufficientFunds exactly when the amount is strictly above the balance. Otherwise the
  request is accepted: the record answered carries the amount, it is appended to the
  withdrawals, and the account is debited by the amount. So a request for the whole
  balance is accepted and leaves the balance at 0.
\<close>

theorem whole_balance_withdrawable:
  assumes "users s userId = Some usr"
    and "MINIMUM_WITHDRAWAL \<le> amount"
    and "method \<in> set [''paypal'', ''nequi'']"
    and "account_info \<noteq> []"
  shows "(fst (request_withdrawal no_faults userId amount method account_info s)
            = InsufficientFunds) = (balance usr < amount) \<and>
         (amount \<le> balance usr \<longrightarrow>
            fst (request_withdrawal no_faults userId amount method account_info s)
              = WithdrawalCreated
                  \<lparr>w_user_id = userId, w_amount = amount, w_method = method,
                   w_account_info = account_info, w_fee = withdrawal_fee amount,
                   w_net_amount = amount - withdrawal_fee amount, w_status = ''pending''\<rparr> \<and>
            withdrawals (snd (request_withdrawal no_faults userId amount method account_info s))
              = withdrawals s @
                  [\<lparr>w_user_id = userId, w_amount = amount, w_method = method,
                    w_account_info = account_info, w_fee = withdrawal_fee amount,
                    w_net_amount = amount - withdrawal_fee amount, w_status = ''pending''\<rparr>] \<and>
            users (snd (request_withdrawal no_faults userId amount method account_info s)) userId
              = Some (usr\<lparr>balance := balance usr - amount\<rparr>)) \<and>
         (balance usr = amount \<longrightarrow>
            balance_of (snd (request_withdrawal no_faults userId amount method account_info s))
              userId = Some 0)"
proof -
  have rej: "(fst (request_withdrawal no_faults userId amount method account_info s)
            = InsufficientFunds) = (balance usr < amount)"
    using assms by (auto simp: wd_defs Let_def no_faults_def MINIMUM_WITHDRAWAL_def)
  have acc: "amount \<le> balance usr \<Longrightarrow>
      request_withdrawal no_faults userId amount method account_info s
           = (WithdrawalCreated
               \<lparr>w_user_id = userId, w_amount = amount, w_method = method,
                w_account_info = account_info, w_fee = withdrawal_fee amount,
                w_net_amount = amount - withdrawal_fee amount, w_status = ''pending''\<rparr>,
              s\<lparr>withdrawals := withdrawals s @
                   [\<lparr>w_user_id = userId, w_amount = amount, w_method = method,
                     w_account_info = account_info, w_fee = withdrawal_fee amount,
                     w_net_amount = amount - withdrawal_fee amount,
                     w_status = ''pending''\<rparr>],
                users := (users s)(userId \<mapsto> usr\<lparr>balance := balance usr - amount\<rparr>),
                notifications := notifications s @
                   [\<lparr>n_user_id = userId, n_amount = amount, n_type = ''info''\<rparr>]\<rparr>)"
    using assms by (rule withdrawal_accepted)
  show ?thesis using rej acc by (auto simp: balance_of_def)
qed

theorem whole_balance_withdrawable_witness:
  "fst (request_withdrawal no_faults 1 50000 ''paypal'' ''a@b.co'' example_db)
     = WithdrawalCreated
         \<lparr>w_user_id = 1, w_amount = 50000, w_method = ''paypal'', w_account_info = ''a@b.co'',
          w_fee = 5000, w_net_amount = 45000, w_status = ''pending''\<rparr> \<and>
   withdrawals (snd (request_withdrawal no_faults 1 50000 ''paypal'' ''a@b.co'' example_db))
     = [\<lparr>w_user_id = 1, w_amount = 50000, w_method = ''paypal'', w_account_info = ''a@b.co'',
         w_fee = 5000, w_net_amount = 45000, w_status = ''pending''\<rparr>] \<and>
   balance_of example_db 1 = Some 50000 \<and>
   balance_of (snd (request_withdrawal no_faults 1 50000 ''paypal'' ''a@b.co'' example_db)) 1
     = Some 0"
proof -
  have u: "users example_db 1 = Some \<lparr>balance = 50000, total_earnings = 50000,
             tasks_completed = 2, referred_by = Some 2\<rparr>"
    by (simp add: example_db_def)
  have m: "MINIMUM_WITHDRAWAL \<le> 50000" by (simp add: MINIMUM_WITHDRAWAL_def)
  have p: "''paypal'' \<in> set [''paypal'', ''nequi'']" by simp
  have a: "''a@b.co'' \<noteq> []" by simp
  have fee: "withdrawal_fee 50000 = 5000"
    using withdrawal_fee_bounded [of 50000] by simp
  have w0: "withdrawals example_db = []" by (simp add: example_db_def)
  from whole_balance_withdrawable [OF u m p a] u fee w0 show ?thesis
    by (simp add: balance_of_def)
qed

section \<open>Referral bonus engine: milestones\<close>

lemma single_map: "single (map h xs) = map_option h (single xs)"
  by (cases xs rule: single.cases) simp_all

lemma referrals_select_update_eq_id:
  assumes "\<And>r. rf_referrer_id (g r) = rf_referrer_id r"
    and "\<And>r. rf_referred_id (g r) = rf_referred_id r"
  shows "referrals_select a b (referrals_update_eq_id k g s) =
         map_option (\<lambda>r. if rf_id r = k then g r else r) (referrals_select a b s)"
proof -
  let ?h = "\<lambda>r. if rf_id r = k then g r else r"
  let ?P = "\<lambda>r. rf_referrer_id r = a \<and> rf_referred_id r = b"
  have "?P \<circ> ?h = ?P" using assms by (auto simp: fun_eq_iff)
  then have "filter ?P (map ?h (referrals s)) = map ?h (filter ?P (referrals s))"
    by (simp add: filter_map)
  then show ?thesis
    by (simp add: referrals_select_def referrals_update_eq_id_def single_map)
qed

lemma referrals_select_users_update [simp]:
  "referrals_select a b (users_update_eq_id k g s) = referrals_select a b s"
  by (simp add: referrals_select_def users_update_eq_id_def split: option.splits)

lemma referrals_select_notifications [simp]:
  "referrals_select a b (s\<lparr>notifications := n\<rparr>) = referrals_select a b s"
  by (simp add: referrals_select_def)

lemma users_referrals_update [simp]:
  "users (referrals_update_eq_id k g s) = users s"
  by (simp add: referrals_update_eq_id_def)

lemma users_users_update:
  "users (users_update_eq_id k g s) x =
     (if x = k then map_option g (users s k) else users s x)"
  by (simp add: users_update_eq_id_def split: option.splits)

text \<open>The engine on a store whose calls all resolve, once the referral row is found.\<close>

lemma engine_no_faults:
  assumes "users s userId = Some usr" and "referred_by usr = Some referrerId"
    and "referrals_select referrerId userId s = Some referral"
  shows "checkReferralBonuses no_faults userId s =
    (let bonus = bonusAmount (tasks_completed usr) (rf_tasks_completed referral) in
     if bonus > 0 then
       (referrals_update_eq_id (rf_id referral)
          (\<lambda>r. r\<lparr>rf_bonus_earned := rf_bonus_earned r + bonus,
                  rf_tasks_completed := tasks_completed usr\<rparr>)
          (users_update_eq_id referrerId
             (\<lambda>u. u\<lparr>balance := balance u + bonus,
                     total_earnings := total_earnings u + bonus\<rparr>) s))
        \<lparr>notifications := notifications s @
           [\<lparr>n_user_id = referrerId, n_amount = bonus, n_type = ''success''\<rparr>]\<rparr>
     else referrals_update_eq_id (rf_id referral)
            (\<lambda>r. r\<lparr>rf_tasks_completed := tasks_completed usr\<rparr>) s)"
  using assms
  by (simp add: checkReferralBonuses_def referral_bonus_try_def no_faults_def Let_def
        referrals_update_eq_id_def users_update_eq_id_def split: option.splits)

lemma bonusAmount_table:
  "(threshold, bonus) \<in> set milestone_table \<Longrightarrow> snapshot < threshold \<Longrightarrow>
     bonusAmount threshold snapshot = bonus"
  by (auto simp: milestone_table_def bonusAmount_def)

lemma bonusAmount_same: "bonusAmount c c = 0"
  by (simp add: bonusAmount_def)

lemma bonus_positive: "(threshold, bonus) \<in> set milestone_table \<Longrightarrow> 0 < bonus"
  by (auto simp: milestone_table_def)

lemma snapshot_update_idle:
  assumes "\<And>r. r \<in> set (referrals s) \<Longrightarrow> rf_id r = k \<Longrightarrow> rf_tasks_completed r = c"
  shows "referrals_update_eq_id k (\<lambda>r. r\<lparr>rf_tasks_completed := c\<rparr>) s = s"
proof -
  have "map (\<lambda>r. if rf_id r = k then r\<lparr>rf_tasks_completed := c\<rparr> else r) (referrals s)
          = referrals s"
    using assms by (intro map_idI) auto
  then show ?thesis by (simp add: referrals_update_eq_id_def)
qed

text \<open>
  C1. When the engine runs for a referred user whose count of completed tasks equals a
  threshold of the table (3, 7 or 15) and whose referral row holds a snapshot strictly
  below that threshold, the balance of the referrer goes up by exactly the bonus of the
  threshold, the row's bonus_earned goes up by the same amount and its snapshot becomes
  the count. Running the engine again with the count unchanged leaves the whole store as
  it is: nothing more is awarded.
\<close>

theorem milestone_fires_once:
  assumes u: "users s userId = Some usr"
    and rb: "referred_by usr = Some referrerId"
    and ru: "users s referrerId = Some referrer"
    and rf: "referrals_select referrerId userId s = Some referral"
    and tb: "(threshold, bonus) \<in> set milestone_table"
    and cnt: "tasks_completed usr = threshold"
    and snap: "rf_tasks_completed referral < threshold"
  shows "balance_of (checkReferralBonuses no_faults userId s) referrerId
           = Some (balance referrer + bonus) \<and>
         referrals_select referrerId userId (checkReferralBonuses no_faults userId s)
           = Some (referral\<lparr>rf_bonus_earned := rf_bonus_earned referral + bonus,
                           rf_tasks_completed := threshold\<rparr>) \<and>
         checkReferralBonuses no_faults userId (checkReferralBonuses no_faults userId s)
           = checkReferralBonuses no_faults userId s"
proof -
  let ?g = "\<lambda>r. r\<lparr>rf_bonus_earned := rf_bonus_earned r + bonus,
                    rf_tasks_completed := threshold\<rparr>"
  let ?s1 = "users_update_eq_id referrerId
               (\<lambda>u. u\<lparr>balance := balance u + bonus,
                       total_earnings := total_earnings u + bonus\<rparr>) s"
  let ?s' = "checkReferralBonuses no_faults userId s"
  have b: "bonusAmount (tasks_completed usr) (rf_tasks_completed referral) = bonus"
    using tb cnt snap by (simp add: bonusAmount_table)
  have pos: "0 < bonus" using tb by (rule bonus_positive)
  have s': "?s' = (referrals_update_eq_id (rf_id referral) ?g ?s1)
                   \<lparr>notifications := notifications s @
                      [\<lparr>n_user_id = referrerId, n_amount = bonus, n_type = ''success''\<rparr>]\<rparr>"
    using engine_no_faults [OF u rb rf] b pos cnt by (simp add: Let_def)
  have bal: "balance_of ?s' referrerId = Some (balance referrer + bonus)"
    using ru by (simp add: s' balance_of_def users_users_update)
  have sel: "referrals_select referrerId userId ?s' = Some (?g referral)"
    using rf by (simp add: s' referrals_select_update_eq_id)
  have "\<exists>usr'. users ?s' userId = Some usr' \<and> tasks_completed usr' = threshold \<and>
           referred_by usr' = Some referrerId"
    unfolding s' using u rb cnt by (auto simp: users_users_update)
  then obtain usr' where u': "users ?s' userId = Some usr'"
    and cnt': "tasks_completed usr' = threshold" and rb': "referred_by usr' = Some referrerId"
    by blast
  have idle: "referrals_update_eq_id (rf_id referral)
                (\<lambda>r. r\<lparr>rf_tasks_completed := threshold\<rparr>) ?s' = ?s'"
    by (rule snapshot_update_idle) (auto simp: s' referrals_update_eq_id_def)
  have "checkReferralBonuses no_faults userId ?s' = ?s'"
    using engine_no_faults [OF u' rb' sel] idle cnt' by (simp add: Let_def bonusAmount_same)
  with bal sel show ?thesis by simp
qed







lemma example_with_count_facts:
  "users (example_with_count c) 1
     = Some \<lparr>balance = 50000, total_earnings = 50000, tasks_completed = c,
              referred_by = Some 2\<rparr>"
  "users (example_with_count c) 2
     = Some \<lparr>balance = 0, total_earnings = 0, tasks_completed = 0, referred_by = None\<rparr>"
  "referrals_select 2 1 (example_with_count c)
     = Some \<lparr>rf_id = 1, rf_referrer_id = 2, rf_referred_id = 1, rf_bonus_earned = 0,
              rf_tasks_completed = 2\<rparr>"
  by (simp_all add: example_with_count_def example_db_def referrals_select_def)

theorem milestone_fires_once_witness:
  "balance_of (example_with_count 3) 2 = Some 0 \<and>
   balance_of (checkReferralBonuses no_faults 1 (example_with_count 3)) 2 = Some 5000 \<and>
   referrals_select 2 1 (checkReferralBonuses no_faults 1 (example_with_count 3))
     = Some \<lparr>rf_id = 1, rf_referrer_id = 2, rf_referred_id = 1, rf_bonus_earned = 5000,
              rf_tasks_completed = 3\<rparr> \<and>
   checkReferralBonuses no_faults 1 (checkReferralBonuses no_faults 1 (example_with_count 3))
     = checkReferralBonuses no_faults 1 (example_with_count 3)"
proof -
  have tb: "(3, 5000) \<in> set milestone_table" by (simp add: milestone_table_def)
  have b0: "balance_of (example_with_count 3) 2 = Some 0"
    by (simp add: balance_of_def example_with_count_facts)
  from milestone_fires_once [where s = "example_with_count 3" and userId = 1
      and referrerId = 2,
      OF example_with_count_facts(1) _ example_with_count_facts(2)
         example_with_count_facts(3) tb] b0
  show ?thesis by simp
qed


section \<open>Task completion workflow\<close>

lemmas engine_defs =
  checkReferralBonuses_def referral_bonus_try_def Let_def console_error_def
  referrals_update_eq_id_def users_update_eq_id_def

lemma engine_keeps_completions:
  "user_tasks (checkReferralBonuses f userId s) = user_tasks s \<and>
   tasks (checkReferralBonuses f userId s) = tasks s"
  by (simp add: engine_defs split: option.splits)

lemma engine_keeps_other_accounts:
  assumes "users s userId = Some usr" and "referred_by usr \<noteq> Some x"
  shows "users (checkReferralBonuses f userId s) x = users s x"
  using assms by (auto simp: engine_defs split: option.splits)

lemma engine_console:
  "console (checkReferralBonuses f userId s) = console s \<or>
   console (checkReferralBonuses f userId s) = console s @ [''Referral bonus check error:'']"
  by (simp add: engine_defs split: option.splits)

text \<open>The steps of the handler before the engine, when none of their calls is rejected.\<close>

lemma complete_task_accepted:
  assumes "\<not> f TasksSelect" and "\<not> f UserTasksSelect" and "\<not> f UserTasksInsert"
    and "\<not> f UsersUpdateReward"
    and "active_task s taskId = Some tsk"
    and "user_tasks s (userId, taskId) = None"
  shows "complete_task f userId taskId s =
    (TaskCompleted (t_reward tsk)
       \<lparr>ut_user_id = userId, ut_task_id = taskId, ut_status = ''completed'',
        ut_reward_amount = t_reward tsk\<rparr>,
     checkReferralBonuses f userId
       (users_update_eq_id userId
          (\<lambda>u. u\<lparr>balance := balance u + t_reward tsk,
                  total_earnings := total_earnings u + t_reward tsk,
                  tasks_completed := tasks_completed u + 1\<rparr>)
          (s\<lparr>user_tasks := (user_tasks s)((userId, taskId) \<mapsto>
               \<lparr>ut_user_id = userId, ut_task_id = taskId, ut_status = ''completed'',
                ut_reward_amount = t_reward tsk\<rparr>)\<rparr>)))"
  using assms by (simp add: complete_task_def Let_def)

lemma complete_task_success_only_if:
  assumes "complete_task f userId taskId s = (TaskCompleted R ut, s')"
  shows "\<not> f TasksSelect \<and> \<not> f UserTasksSelect \<and> \<not> f UserTasksInsert \<and>
         \<not> f UsersUpdateReward \<and> user_tasks s (userId, taskId) = None \<and>
         (\<exists>tsk. active_task s taskId = Some tsk \<and> t_reward tsk = R)"
  using assms by (auto simp: complete_task_def Let_def split: if_splits option.splits)

lemma paid_state:
  assumes "users s userId = Some usr" and "referred_by usr \<noteq> Some userId"
  shows "users (checkReferralBonuses f userId
           (users_update_eq_id userId
              (\<lambda>u. u\<lparr>balance := balance u + R, total_earnings := total_earnings u + R,
                      tasks_completed := tasks_completed u + 1\<rparr>)
              (s\<lparr>user_tasks := m\<rparr>))) userId
         = Some (usr\<lparr>balance := balance usr + R, total_earnings := total_earnings usr + R,
                     tasks_completed := tasks_completed usr + 1\<rparr>)"
proof -
  let ?u = "usr\<lparr>balance := balance usr + R, total_earnings := total_earnings usr + R,
                 tasks_completed := tasks_completed usr + 1\<rparr>"
  let ?s2 = "users_update_eq_id userId
              (\<lambda>u. u\<lparr>balance := balance u + R, total_earnings := total_earnings u + R,
                      tasks_completed := tasks_completed u + 1\<rparr>)
              (s\<lparr>user_tasks := m\<rparr>)"
  have u2: "users ?s2 userId = Some ?u"
    using assms(1) by (simp add: users_update_eq_id_def)
  have r2: "referred_by ?u \<noteq> Some userId" using assms(2) by simp
  show ?thesis using engine_keeps_other_accounts [OF u2 r2] u2 by simp
qed

lemma complete_task_success_state:
  assumes ok: "complete_task f userId taskId s = (TaskCompleted R ut, s')"
  shows "ut = \<lparr>ut_user_id = userId, ut_task_id = taskId, ut_status = ''completed'',
               ut_reward_amount = R\<rparr> \<and>
         s' = checkReferralBonuses f userId
                (users_update_eq_id userId
                   (\<lambda>u. u\<lparr>balance := balance u + R, total_earnings := total_earnings u + R,
                           tasks_completed := tasks_completed u + 1\<rparr>)
                   (s\<lparr>user_tasks := (user_tasks s)((userId, taskId) \<mapsto> ut)\<rparr>))"
proof -
  from complete_task_success_only_if [OF ok]
  obtain tsk where nf: "\<not> f TasksSelect" "\<not> f UserTasksSelect" "\<not> f UserTasksInsert"
      "\<not> f UsersUpdateReward"
    and fresh: "user_tasks s (userId, taskId) = None"
    and act: "active_task s taskId = Some tsk" and rw: "t_reward tsk = R"
    by blast
  note eq = complete_task_accepted [OF nf act fresh, unfolded rw]
  from ok show ?thesis unfolding eq by auto
qed

lemma completion_recorded:
  assumes ok: "complete_task f userId taskId s = (TaskCompleted R ut, s')"
  shows "user_tasks s' (userId, taskId) = Some ut \<and> tasks s' = tasks s"
proof -
  from complete_task_success_state [OF ok]
  have s': "s' = checkReferralBonuses f userId
                (users_update_eq_id userId
                   (\<lambda>u. u\<lparr>balance := balance u + R, total_earnings := total_earnings u + R,
                           tasks_completed := tasks_completed u + 1\<rparr>)
                   (s\<lparr>user_tasks := (user_tasks s)((userId, taskId) \<mapsto> ut)\<rparr>))"
    by blast
  show ?thesis
    unfolding s'
    by (simp add: engine_keeps_completions users_update_eq_id_def split: option.splits)
qed

text \<open>
  C7. Whenever completeTask answers with success for a user who has an account (and is
  not recorded as their own referrer, which registration never does), the task was
  active with the reward R that is returned and had not been completed by the user; the
  user's balance and total_earnings have grown by R and tasks_completed by 1; the answer
  carries R and the completion record that is now stored for the pair.
\<close>

theorem completion_pays_reward:
  assumes ok: "complete_task f userId taskId s = (TaskCompleted R ut, s')"
    and u: "users s userId = Some usr"
    and other: "referred_by usr \<noteq> Some userId"
  shows "(\<exists>tsk. active_task s taskId = Some tsk \<and> t_reward tsk = R) \<and>
         user_tasks s (userId, taskId) = None \<and>
         users s' userId
           = Some (usr\<lparr>balance := balance usr + R, total_earnings := total_earnings usr + R,
                       tasks_completed := tasks_completed usr + 1\<rparr>) \<and>
         ut = \<lparr>ut_user_id = userId, ut_task_id = taskId, ut_status = ''completed'',
               ut_reward_amount = R\<rparr> \<and>
         user_tasks s' (userId, taskId) = Some ut"
proof -
  note st = complete_task_success_state [OF ok]
  from st have s': "s' = checkReferralBonuses f userId
                (users_update_eq_id userId
                   (\<lambda>u. u\<lparr>balance := balance u + R, total_earnings := total_earnings u + R,
                           tasks_completed := tasks_completed u + 1\<rparr>)
                   (s\<lparr>user_tasks := (user_tasks s)((userId, taskId) \<mapsto> ut)\<rparr>))"
    by blast
  have paid: "users s' userId
           = Some (usr\<lparr>balance := balance usr + R, total_earnings := total_earnings usr + R,
                       tasks_completed := tasks_completed usr + 1\<rparr>)"
    unfolding s' using paid_state [OF u other] by simp
  from complete_task_success_only_if [OF ok] completion_recorded [OF ok] st paid
  show ?thesis by blast
qed

theorem completion_pays_reward_witness:
  "complete_task no_faults 1 10 example_db =
     (TaskCompleted 700 \<lparr>ut_user_id = 1, ut_task_id = 10, ut_status = ''completed'',
                          ut_reward_amount = 700\<rparr>,
      snd (complete_task no_faults 1 10 example_db)) \<and>
   users example_db 1 = Some \<lparr>balance = 50000, total_earnings = 50000, tasks_completed = 2,
                               referred_by = Some 2\<rparr> \<and>
   users (snd (complete_task no_faults 1 10 example_db)) 1
     = Some \<lparr>balance = 50700, total_earnings = 50700, tasks_completed = 3,
              referred_by = Some 2\<rparr>"
proof -
  have r: "complete_task no_faults 1 10 example_db =
     (TaskCompleted 700 \<lparr>ut_user_id = 1, ut_task_id = 10, ut_status = ''completed'',
                          ut_reward_amount = 700\<rparr>,
      snd (complete_task no_faults 1 10 example_db))"
    by (simp add: complete_task_def active_task_def Let_def no_faults_def example_db_def)
  have u: "users example_db 1 = Some \<lparr>balance = 50000, total_earnings = 50000,
             tasks_completed = 2, referred_by = Some 2\<rparr>"
    by (simp add: example_db_def)
  from completion_pays_reward [OF r u] r u show ?thesis by simp
qed

text \<open>
  C6. Take an active task the user has not completed, and any fault plan that leaves the
  four store calls of the handler itself alone: whichever calls of the referral engine
  are rejected, the handler answers with success, the completion record is stored and
  the reward is on the user's account. The only trace a failure of the engine leaves is
  at most one line on the console.
\<close>

theorem referral_failure_is_swallowed:
  assumes "\<not> f TasksSelect" and "\<not> f UserTasksSelect" and "\<not> f UserTasksInsert"
    and "\<not> f UsersUpdateReward"
    and act: "active_task s taskId = Some tsk"
    and fresh: "user_tasks s (userId, taskId) = None"
    and u: "users s userId = Some usr"
    and other: "referred_by usr \<noteq> Some userId"
  shows "fst (complete_task f userId taskId s)
           = TaskCompleted (t_reward tsk)
               \<lparr>ut_user_id = userId, ut_task_id = taskId, ut_status = ''completed'',
                ut_reward_amount = t_reward tsk\<rparr> \<and>
         users (snd (complete_task f userId taskId s)) userId
           = Some (usr\<lparr>balance := balance usr + t_reward tsk,
                       total_earnings := total_earnings usr + t_reward tsk,
                       tasks_completed := tasks_completed usr + 1\<rparr>) \<and>
         user_tasks (snd (complete_task f userId taskId s)) (userId, taskId)
           = Some \<lparr>ut_user_id = userId, ut_task_id = taskId, ut_status = ''completed'',
                    ut_reward_amount = t_reward tsk\<rparr> \<and>
         (console (snd (complete_task f userId taskId s)) = console s \<or>
          console (snd (complete_task f userId taskId s))
            = console s @ [''Referral bonus check error:''])"
proof -
  let ?ut = "\<lparr>ut_user_id = userId, ut_task_id = taskId, ut_status = ''completed'',
              ut_reward_amount = t_reward tsk\<rparr>"
  let ?s2 = "users_update_eq_id userId
               (\<lambda>u. u\<lparr>balance := balance u + t_reward tsk,
                       total_earnings := total_earnings u + t_reward tsk,
                       tasks_completed := tasks_completed u + 1\<rparr>)
               (s\<lparr>user_tasks := (user_tasks s)((userId, taskId) \<mapsto> ?ut)\<rparr>)"
  have eq: "complete_task f userId taskId s
              = (TaskCompleted (t_reward tsk) ?ut, checkReferralBonuses f userId ?s2)"
    using assms(1-4) act fresh by (rule complete_task_accepted)
  have paid: "users (checkReferralBonuses f userId ?s2) userId
                = Some (usr\<lparr>balance := balance usr + t_reward tsk,
                            total_earnings := total_earnings usr + t_reward tsk,
                            tasks_completed := tasks_completed usr + 1\<rparr>)"
    using u other by (rule paid_state)
  have rec: "user_tasks (checkReferralBonuses f userId ?s2) (userId, taskId) = Some ?ut"
    by (simp add: engine_keeps_completions users_update_eq_id_def split: option.splits)
  have "console ?s2 = console s"
    by (simp add: users_update_eq_id_def split: option.splits)
  with engine_console [of f userId ?s2]
  have log: "console (checkReferralBonuses f userId ?s2) = console s \<or>
             console (checkReferralBonuses f userId ?s2)
               = console s @ [''Referral bonus check error:'']"
    by simp
  from paid rec log show ?thesis unfolding eq by simp
qed

theorem referral_failure_is_swallowed_witness:
  "referrer_update_rejected RbUsersUpdate \<and>
   fst (complete_task referrer_update_rejected 1 10 example_db)
     = TaskCompleted 700 \<lparr>ut_user_id = 1, ut_task_id = 10, ut_status = ''completed'',
                           ut_reward_amount = 700\<rparr> \<and>
   users (snd (complete_task referrer_update_rejected 1 10 example_db)) 1
     = Some \<lparr>balance = 50700, total_earnings = 50700, tasks_completed = 3,
              referred_by = Some 2\<rparr> \<and>
   console (snd (complete_task referrer_update_rejected 1 10 example_db))
     = [''Referral bonus check error:'']"
proof -
  have act: "active_task example_db 10 = Some \<lparr>t_reward = 700, t_status = ''active''\<rparr>"
    by (simp add: active_task_def example_db_def)
  have fresh: "user_tasks example_db (1, 10) = None" by (simp add: example_db_def)
  have u: "users example_db 1 = Some \<lparr>balance = 50000, total_earnings = 50000,
             tasks_completed = 2, referred_by = Some 2\<rparr>"
    by (simp add: example_db_def)
  have log: "console (snd (complete_task referrer_update_rejected 1 10 example_db))
               = [''Referral bonus check error:'']"
    by (simp add: complete_task_def active_task_def engine_defs referrals_select_def
          bonusAmount_def referrer_update_rejected_def example_db_def)
  from referral_failure_is_swallowed [where f = referrer_update_rejected, OF _ _ _ _ act fresh u]
    log
  show ?thesis by (simp add: referrer_update_rejected_def)
qed

text \<open>
  C5, as stated, fails: the handler looks the task up first, so with a completion record
  for the pair and the task no longer active the answer is TaskNotFound.
\<close>

theorem inactive_task_answers_not_found:
  "user_tasks (example_completed ''inactive'') (1, 10)
     = Some \<lparr>ut_user_id = 1, ut_task_id = 10, ut_status = ''completed'',
              ut_reward_amount = 700\<rparr> \<and>
   fst (complete_task no_faults 1 10 (example_completed ''inactive'')) = TaskNotFound \<and>
   fst (complete_task no_faults 1 10 (example_completed ''inactive'')) \<noteq> AlreadyCompleted"
  by (simp add: complete_task_def active_task_def no_faults_def example_completed_def)

text \<open>
  C5, amended. If a completion record exists for the (user, task) pair, completeTask
  returns the store exactly as it was, so no balance changes; the answer is
  AlreadyCompleted when the task is active, and TaskNotFound when the task is missing or
  not active. This holds for every fault plan that leaves the two lookups alone.
\<close>

theorem existing_completion_rejected:
  assumes "user_tasks s (userId, taskId) = Some existing"
    and "\<not> f TasksSelect" and "\<not> f UserTasksSelect"
  shows "snd (complete_task f userId taskId s) = s \<and>
         (active_task s taskId \<noteq> None \<longrightarrow>
            fst (complete_task f userId taskId s) = AlreadyCompleted) \<and>
         (active_task s taskId = None \<longrightarrow>
            fst (complete_task f userId taskId s) = TaskNotFound)"
  using assms by (auto simp: complete_task_def split: option.splits)

theorem existing_completion_rejected_witness:
  "user_tasks (example_completed ''active'') (1, 10)
     = Some \<lparr>ut_user_id = 1, ut_task_id = 10, ut_status = ''completed'',
              ut_reward_amount = 700\<rparr> \<and>
   active_task (example_completed ''active'') 10
     = Some \<lparr>t_reward = 700, t_status = ''active''\<rparr> \<and>
   complete_task no_faults 1 10 (example_completed ''active'')
     = (AlreadyCompleted, example_completed ''active'')"
proof -
  have r: "user_tasks (example_completed ''active'') (1, 10)
     = Some \<lparr>ut_user_id = 1, ut_task_id = 10, ut_status = ''completed'',
              ut_reward_amount = 700\<rparr>"
    by (simp add: example_completed_def)
  have t: "active_task (example_completed ''active'') 10
     = Some \<lparr>t_reward = 700, t_status = ''active''\<rparr>"
    by (simp add: active_task_def example_completed_def)
  from existing_completion_rejected [OF r, of no_faults] t
  have "snd (complete_task no_faults 1 10 (example_completed ''active''))
          = example_completed ''active''"
    and "fst (complete_task no_faults 1 10 (example_completed ''active'')) = AlreadyCompleted"
    by (simp_all add: no_faults_def)
  with r t show ?thesis by (simp add: prod_eq_iff)
qed

text \<open>In particular, the call that follows a successful completion is rejected.\<close>

lemma repeated_completion_rejected:
  assumes ok: "complete_task f userId taskId s = (TaskCompleted R ut, s')"
  shows "user_tasks s' (userId, taskId) = Some ut \<and>
         complete_task no_faults userId taskId s' = (AlreadyCompleted, s')"
proof -
  from complete_task_success_only_if [OF ok]
  obtain tsk where act: "active_task s taskId = Some tsk" by blast
  from completion_recorded [OF ok]
  have rec: "user_tasks s' (userId, taskId) = Some ut" and tk: "tasks s' = tasks s"
    by simp_all
  from act tk have act': "active_task s' taskId = Some tsk"
    by (simp add: active_task_def)
  from act' rec show ?thesis
    by (simp add: complete_task_def no_faults_def)
qed


section \<open>Balance update and the ledger of transactions\<close>

lemmas bu_defs = post_balance_update_def console_error_def Let_def

lemma balance_update_keeps_ledger:
  assumes "ledger_consistent s x"
  shows "ledger_consistent (snd (post_balance_update no_faults userId amount type description s)) x"
  using assms
  by (auto simp: bu_defs no_faults_def ledger_consistent_def ledger_sum_def
      split: option.splits)

text \<open>
  C2. The invariant is not kept by the code: on the example store, where the balance of
  user 1 equals the sum of that user's transactions, a successful task completion raises
  the balance to 50700 and records no transaction, so the sum stays at 50000. Only the
  balance update appends a transaction (\<open>balance_update_keeps_ledger\<close>).
\<close>

theorem completion_without_transaction:
  "ledger_consistent example_db 1 \<and>
   fst (complete_task no_faults 1 10 example_db)
     = TaskCompleted 700 \<lparr>ut_user_id = 1, ut_task_id = 10, ut_status = ''completed'',
                           ut_reward_amount = 700\<rparr> \<and>
   balance_of (snd (complete_task no_faults 1 10 example_db)) 1 = Some 50700 \<and>
   ledger_sum (snd (complete_task no_faults 1 10 example_db)) 1 = 50000 \<and>
   \<not> ledger_consistent (snd (complete_task no_faults 1 10 example_db)) 1"
  by (simp add: complete_task_def active_task_def checkReferralBonuses_def
        referral_bonus_try_def Let_def console_error_def referrals_update_eq_id_def
        users_update_eq_id_def referrals_select_def bonusAmount_def no_faults_def
        ledger_consistent_def ledger_sum_def balance_of_def example_db_def)

lemma balance_update_debit:
  assumes "users s userId = Some usr" and "amount \<noteq> 0" and "type \<noteq> []" and "type \<noteq> ''add''"
  shows "fst (post_balance_update no_faults userId amount type description s)
           = BalanceUpdated (balance usr - amount) (total_earnings usr) \<and>
         balance_of (snd (post_balance_update no_faults userId amount type description s)) userId
           = Some (balance usr - amount)"
  using assms by (simp add: bu_defs no_faults_def balance_of_def)

text \<open>
  C3. The balance update has no test of the funds: on the example store a debit of 60000
  from a balance of 50000 is answered with success and leaves the balance at -10000.
\<close>

theorem overdraft_is_accepted:
  "balance_of example_db 1 = Some 50000 \<and>
   fst (post_balance_update no_faults 1 60000 ''subtract'' [] example_db)
     = BalanceUpdated (- 10000) 50000 \<and>
   fst (post_balance_update no_faults 1 60000 ''subtract'' [] example_db) \<noteq> InsufficientFunds \<and>
   balance_of (snd (post_balance_update no_faults 1 60000 ''subtract'' [] example_db)) 1
     = Some (- 10000)"
  by (simp add: bu_defs no_faults_def balance_of_def example_db_def)

section \<open>The count of completed tasks never decreases\<close>

text \<open>
  No handler lowers \<open>tasks_completed\<close> of any account, under any fault plan: a later
  evaluation of the engine for a user sees a count at least as high as an earlier one.
\<close>

lemma engine_keeps_count:
  assumes "users s x = Some ux"
  shows "\<exists>ux'. users (checkReferralBonuses f userId s) x = Some ux' \<and>
           tasks_completed ux' = tasks_completed ux"
  using assms by (auto simp: engine_defs split: option.splits)

lemma completion_count_monotone:
  assumes "users s x = Some ux"
  shows "\<exists>ux'. users (snd (complete_task f userId taskId s)) x = Some ux' \<and>
           tasks_completed ux \<le> tasks_completed ux'"
proof -
  let ?g = "\<lambda>R (u::user). u\<lparr>balance := balance u + R, total_earnings := total_earnings u + R,
                  tasks_completed := tasks_completed u + 1\<rparr>"
  have step: "\<exists>u1. users (users_update_eq_id userId (?g R) (s\<lparr>user_tasks := m\<rparr>)) x = Some u1 \<and>
                tasks_completed ux \<le> tasks_completed u1" for R m
    using assms by (auto simp: users_update_eq_id_def split: option.splits)
  have "\<exists>ux'. users (checkReferralBonuses f userId
           (users_update_eq_id userId (?g R) (s\<lparr>user_tasks := m\<rparr>))) x = Some ux' \<and>
           tasks_completed ux \<le> tasks_completed ux'" for R m
  proof -
    from step obtain u1 where
      u1: "users (users_update_eq_id userId (?g R) (s\<lparr>user_tasks := m\<rparr>)) x = Some u1"
      and le: "tasks_completed ux \<le> tasks_completed u1" by blast
    from engine_keeps_count [OF u1, of f userId] le show ?thesis by auto
  qed
  then show ?thesis
    using assms
    by (auto simp: complete_task_def Let_def console_error_def split: option.splits)
qed

lemma other_handlers_keep_count:
  assumes "users s x = Some ux"
  shows "(\<exists>ux'. users (snd (request_withdrawal f userId amount method account_info s)) x = Some ux' \<and>
            tasks_completed ux' = tasks_completed ux) \<and>
         (\<exists>ux'. users (snd (post_balance_update f userId amount type description s)) x = Some ux' \<and>
            tasks_completed ux' = tasks_completed ux)"
  using assms
  by (auto simp: wd_defs bu_defs split: option.splits)

end
